theory Spec2Isabelle
  imports Main "HOL-Library.Multiset"
begin

section \<open>Python values, errors and string primitives\<close>

text \<open>
  The module under study is \<^verbatim>\<open>lsst/sims/maf/plots/plotHandler.py\<close> (Python 2).
  Exceptions are values of \<open>pyerror\<close>; a function that may raise returns
  \<open>pyerror + 'a\<close> (\<open>Inl\<close> the exception), and a method that mutates
  \<^verbatim>\<open>self\<close> returns the handler as it stands when the method returns or raises.
\<close>

datatype pyerror = IndexError | KeyError | NameError | TypeError | UnboundLocalError | ValueError

text \<open>The dynamically typed values stored in the plot dictionaries.\<close>

datatype pyval = PNone | PBool bool | PInt int | PStr string | PList "pyval list"

text \<open>Python truth value, as \<^verbatim>\<open>not v\<close> reads it.\<close>

fun truthy :: "pyval \<Rightarrow> bool" where
  "truthy PNone = False"
| "truthy (PBool b) = b"
| "truthy (PInt i) = (i \<noteq> 0)"
| "truthy (PStr s) = (s \<noteq> [])"
| "truthy (PList vs) = (vs \<noteq> [])"

text \<open>\<^verbatim>\<open>v[i]\<close> for a non-negative index.\<close>

fun py_index :: "pyval \<Rightarrow> nat \<Rightarrow> pyerror + pyval" where
  "py_index (PList vs) i = (if i < length vs then Inr (vs ! i) else Inl IndexError)"
| "py_index (PStr s) i = (if i < length s then Inr (PStr [s ! i]) else Inl IndexError)"
| "py_index v i = Inl TypeError"

text \<open>\<^verbatim>\<open>sep.join(xs)\<close>\<close>

fun join :: "string \<Rightarrow> string list \<Rightarrow> string" where
  "join sep [] = []"
| "join sep [x] = x"
| "join sep (x # y # ys) = x @ sep @ join sep (y # ys)"

text \<open>\<^verbatim>\<open>sub in s\<close> on strings.\<close>

fun str_contains :: "string \<Rightarrow> string \<Rightarrow> bool" where
  "str_contains sub [] = (sub = [])"
| "str_contains sub (c # cs) = (take (length sub) (c # cs) = sub \<or> str_contains sub cs)"

text \<open>
  \<^verbatim>\<open>s.split(sep)\<close> for a non-empty separator: the occurrences of \<open>sep\<close> are found
  from the left and do not overlap; \<open>cur\<close> is the piece read so far. (Every separator
  of the module is a non-empty literal.)
\<close>

fun py_split_from :: "string \<Rightarrow> string \<Rightarrow> string \<Rightarrow> string list" where
  "py_split_from sep cur [] = [cur]"
| "py_split_from sep cur (c # cs) =
     (if sep \<noteq> [] \<and> take (length sep) (c # cs) = sep
      then cur # py_split_from sep [] (drop (length sep - 1) cs)
      else py_split_from sep (cur @ [c]) cs)"

definition py_split :: "string \<Rightarrow> string \<Rightarrow> string list" where
  "py_split sep s = py_split_from sep [] s"

text \<open>The whitespace of \<^verbatim>\<open>str.split()\<close> and \<^verbatim>\<open>str.strip()\<close>: space, \<open>\t \n \v \f \r\<close>.\<close>

definition isspace :: "char \<Rightarrow> bool" where
  "isspace c = (c = CHR '' '' \<or> c = CHR 0x09 \<or> c = CHR 0x0A \<or> c = CHR 0x0B
                \<or> c = CHR 0x0C \<or> c = CHR 0x0D)"

text \<open>\<^verbatim>\<open>s.split()\<close>: the maximal runs of non-whitespace.\<close>

fun py_words_from :: "string \<Rightarrow> string \<Rightarrow> string list" where
  "py_words_from cur [] = (if cur = [] then [] else [cur])"
| "py_words_from cur (c # cs) =
     (if isspace c
      then (if cur = [] then py_words_from [] cs else cur # py_words_from [] cs)
      else py_words_from (cur @ [c]) cs)"

definition py_words :: "string \<Rightarrow> string list" where
  "py_words s = py_words_from [] s"

text \<open>\<^verbatim>\<open>s.strip()\<close>\<close>

definition strip :: "string \<Rightarrow> string" where
  "strip s = rev (dropWhile isspace (rev (dropWhile isspace s)))"

text \<open>\<^verbatim>\<open>s.upper()\<close> on ASCII.\<close>

definition upper_char :: "char \<Rightarrow> char" where
  "upper_char c =
     (let n = (of_char c :: nat) in if 97 \<le> n \<and> n \<le> 122 then char_of (n - 32) else c)"

definition upper :: "string \<Rightarrow> string" where
  "upper s = map upper_char s"

text \<open>\<^verbatim>\<open>xs.insert(i, x)\<close> for \<open>i \<ge> 0\<close>: an index past the end appends.\<close>

definition list_insert :: "nat \<Rightarrow> 'a \<Rightarrow> 'a list \<Rightarrow> 'a list" where
  "list_insert i x xs = take i xs @ x # drop i xs"

subsection \<open>Python sets\<close>

text \<open>
  A Python \<^verbatim>\<open>set\<close> of strings is modelled by the list of its elements in the order
  in which the interpreter iterates over it. That order depends on the hash values and
  is not fixed by the language, so every function that builds a set takes the parameter
  \<open>so\<close> (``set order''), which turns the elements in order of insertion into the
  elements in order of iteration. The only thing known about \<open>so\<close> is that it permutes
  its argument (\<open>iteration_order\<close>).
\<close>

definition iteration_order :: "(string list \<Rightarrow> string list) \<Rightarrow> bool" where
  "iteration_order so = (\<forall>xs. mset (so xs) = mset xs)"

text \<open>Elements in order of first insertion, as a loop of \<^verbatim>\<open>s.add(x)\<close> leaves them.\<close>

definition uniq :: "'a list \<Rightarrow> 'a list" where
  "uniq xs = fold (\<lambda>x seen. if x \<in> set seen then seen else seen @ [x]) xs []"

definition py_set :: "(string list \<Rightarrow> string list) \<Rightarrow> string list \<Rightarrow> string list" where
  "py_set so xs = so (uniq xs)"

text \<open>\<^verbatim>\<open>set.intersection(s, *others)\<close> and \<^verbatim>\<open>s.difference(t)\<close>\<close>

definition py_intersection ::
  "(string list \<Rightarrow> string list) \<Rightarrow> string list \<Rightarrow> string list list \<Rightarrow> string list" where
  "py_intersection so s others = so (filter (\<lambda>x. list_all (\<lambda>t. x \<in> set t) others) s)"

definition py_difference ::
  "(string list \<Rightarrow> string list) \<Rightarrow> string list \<Rightarrow> string list \<Rightarrow> string list" where
  "py_difference so s t = so (filter (\<lambda>x. x \<notin> set t) s)"

text \<open>\<^verbatim>\<open>min(ns)\<close> of a non-empty list.\<close>

definition py_min :: "nat list \<Rightarrow> nat" where
  "py_min ns = fold min (tl ns) (hd ns)"

section \<open>The data model\<close>

text \<open>
  The attributes the module reads from a slicer, a metric and a metric bundle.
  \<open>units\<close> may be \<^verbatim>\<open>None\<close> (the module tests for it). The metric values are opaque.
  The display dictionary is taken with its four documented keys present and an integer
  order.
\<close>

record slicer =
  slicerName :: string
  sliceColName :: string
  sliceColUnits :: string

record metric =
  name :: string
  units :: "string option"
  metricDtype :: string

record displayDict =
  group :: string
  subgroup :: string
  order :: int
  caption :: string

record 'v metricBundle =
  fileRoot :: string
  runName :: string
  metadata :: string
  sqlconstraint :: string
  slicer :: slicer
  metric :: metric
  plotDict :: "string \<rightharpoonup> pyval"
  displayDict :: displayDict
  metricValues :: 'v

text \<open>
  The plotter object handed to \<^verbatim>\<open>plot\<close>: its attributes and its \<^verbatim>\<open>__call__\<close>, which
  receives the metric values, the slicer, the plot dictionary and the figure number
  so far (\<^verbatim>\<open>None\<close> at first) and returns the figure number.
\<close>

record ('v, 'f) plotFunc =
  plotType :: string
  defaultPlotDict :: "(string \<times> pyval) list"
  objectPlotter :: bool
  call :: "'v \<Rightarrow> slicer \<Rightarrow> (string \<rightharpoonup> pyval) \<Rightarrow> 'f option \<Rightarrow> 'f option"

text \<open>
  The \<^verbatim>\<open>PlotHandler\<close> instance. The first six fields are set by \<^verbatim>\<open>__init__\<close>
  (\<open>resultsDb\<close> tells whether a results database was given); the others are the
  attributes \<^verbatim>\<open>setMetricBundles\<close> and its helpers assign. The attributes
  \<^verbatim>\<open>self.plotDict\<close>, \<^verbatim>\<open>self.slicer\<close> and \<^verbatim>\<open>self.metadata\<close> carry the prefix
  \<open>self_\<close>, since a bundle has attributes of the same names.
\<close>

record 'v handler =
  outDir :: string
  resultsDb :: bool
  savefig :: bool
  figformat :: string
  dpi :: nat
  thumbnail :: bool
  mBundles :: "'v metricBundle list"
  self_plotDict :: "string \<rightharpoonup> pyval"
  self_slicer :: slicer
  metricNames :: "string list"
  jointMetricNames :: string
  runNames :: "string list"
  jointRunNames :: string
  self_metadata :: "string list"
  jointMetadata :: string
  sqlconstraints :: string

definition filtercolors :: "string \<rightharpoonup> string" where
  "filtercolors = map_of [(''u'', ''b''), (''g'', ''g''), (''r'', ''y''),
                          (''i'', ''r''), (''z'', ''m''), (''y'', ''k'')]"

definition filterorder :: "string \<rightharpoonup> nat" where
  "filterorder = map_of [(''u'', 0), (''g'', 1), (''r'', 2), (''i'', 3), (''z'', 4), (''y'', 5)]"

text \<open>The local list \<^verbatim>\<open>order\<close> of the two combining methods.\<close>

definition band_order :: "string list" where
  "band_order = [''u'', ''g'', ''r'', ''i'', ''z'', ''y'']"

text \<open>Running the next step of a method unless the previous one raised.\<close>

fun and_then ::
  "pyerror option \<times> 's \<Rightarrow> ('s \<Rightarrow> pyerror option \<times> 's) \<Rightarrow> pyerror option \<times> 's" where
  "and_then (None, s) f = f s"
| "and_then (Some e, s) f = (Some e, s)"

section \<open>setMetricBundles: the bundles in filter order\<close>

text \<open>
  Lines 44--50: the index at which a bundle is inserted into the list built so far.
\<close>

definition insertPosition :: "'v metricBundle list \<Rightarrow> 'v metricBundle \<Rightarrow> nat" where
  "insertPosition sofar mB =
     (let vals = py_split ''_'' (fileRoot mB);
          forder = map filterorder (filter (\<lambda>f. length f = 1) vals);
          forder = map the (filter (\<lambda>p. p \<noteq> None) forder)
      in if length forder = 0 then length sofar else last forder)"

text \<open>The loop of lines 54--62 (and 43--51), started from \<^verbatim>\<open>self.mBundles\<close> so far.\<close>

fun addInFilterOrder :: "'v metricBundle list \<Rightarrow> 'v metricBundle list \<Rightarrow> 'v metricBundle list" where
  "addInFilterOrder sofar [] = sofar"
| "addInFilterOrder sofar (mB # rest) =
     addInFilterOrder (list_insert (insertPosition sofar mB) mB sofar) rest"

text \<open>
  The argument of \<^verbatim>\<open>setMetricBundles\<close>: a list, or a dictionary, given by its items
  in the order \<^verbatim>\<open>itervalues\<close> yields them.
\<close>

datatype 'v bundles_arg = AsList "'v metricBundle list" | AsDict "(string \<times> 'v metricBundle) list"

fun bundle_values :: "'v bundles_arg \<Rightarrow> 'v metricBundle list" where
  "bundle_values (AsList bs) = bs"
| "bundle_values (AsDict kvs) = map snd kvs"

section \<open>Combining names, metadata and constraints\<close>

text \<open>
  \<^verbatim>\<open>_combineMetricNames\<close> (lines 100--135). When the unique names split into equally
  many words, the words at each position are collected into a set; a set of filter
  letters only is written in filter order, any other set is concatenated as it
  iterates.
\<close>

definition mergedWord :: "(string list \<Rightarrow> string list) \<Rightarrow> string list list \<Rightarrow> nat \<Rightarrow> string" where
  "mergedWord so nameLists i =
     (let tmp = py_set so (map (\<lambda>x. x ! i) nameLists)
      in if set (py_intersection so tmp [band_order]) = set tmp
         then concat (filter (\<lambda>f. f \<in> set tmp) band_order)
         else concat tmp)"

definition combineMetricNames ::
  "(string list \<Rightarrow> string list) \<Rightarrow> 'v handler \<Rightarrow> 'v handler" where
  "combineMetricNames so h =
     (let names = py_set so (map (\<lambda>mB. name (metric mB)) (mBundles h));
          jointName =
            (if length names = 1 then join '' '' names
             else
               let nameLengths = map (\<lambda>x. length (py_words x)) names;
                   nameLists = map py_words names
               in if length (uniq nameLengths) = 1
                  then join '' '' (map (mergedWord so nameLists) [0 ..< hd nameLengths])
                  else join '' '' names)
      in h\<lparr>metricNames := names, jointMetricNames := jointName\<rparr>)"

text \<open>\<^verbatim>\<open>_combineRunNames\<close> (lines 137--144).\<close>

definition combineRunNames ::
  "(string list \<Rightarrow> string list) \<Rightarrow> 'v handler \<Rightarrow> 'v handler" where
  "combineRunNames so h =
     (let names = py_set so (map runName (mBundles h))
      in h\<lparr>runNames := names, jointRunNames := join '' '' names\<rparr>)"

text \<open>
  \<^verbatim>\<open>_combineMetadata\<close> (lines 146--215), one definition per local variable.
  \<open>splitMeta\<close> is the body of the loop of lines 162--172.
\<close>

definition splitMeta :: "(string list \<Rightarrow> string list) \<Rightarrow> string \<Rightarrow> string list" where
  "splitMeta so m =
     (let ms = (if str_contains '' and '' m then py_split '' and '' m
                else if str_contains '', '' m then py_split '', '' m
                else [m])
      in py_set so (map strip ms))"

definition metaSplitmetas :: "(string list \<Rightarrow> string list) \<Rightarrow> string list \<Rightarrow> string list list" where
  "metaSplitmetas so metas = map (splitMeta so) metas"

text \<open>\<^verbatim>\<open>set.intersection(*xs)\<close>: a \<^verbatim>\<open>TypeError\<close> without arguments.\<close>

definition intersect_all ::
  "(string list \<Rightarrow> string list) \<Rightarrow> string list list \<Rightarrow> pyerror + string list" where
  "intersect_all so xs = (case xs of [] \<Rightarrow> Inl TypeError | s # others \<Rightarrow> Inr (py_intersection so s others))"

definition metaDiff ::
  "(string list \<Rightarrow> string list) \<Rightarrow> string list \<Rightarrow> string list list \<Rightarrow> string list list" where
  "metaDiff so common splitmetas = map (\<lambda>x. py_difference so x common) splitmetas"

definition metaDiffsplit :: "(string list \<Rightarrow> string list) \<Rightarrow> string list list \<Rightarrow> string list list" where
  "metaDiffsplit so diff = map (\<lambda>d. if length d > 0 then py_set so (py_words (hd d)) else []) diff"

text \<open>
  Lines 200--211: the one-letter sets in filter order, then the sets not among them
  (\<^verbatim>\<open>d not in diffdiffOrdered\<close> compares sets), each joined with a space.
\<close>

definition orderDiffdiff :: "string list list \<Rightarrow> string list" where
  "orderDiffdiff diffdiff =
     (let diffdiffOrdered =
            concat (map (\<lambda>f. filter (\<lambda>d. length d = 1 \<and> hd d = f) diffdiff) band_order);
          diffdiffEnd = filter (\<lambda>d. \<not> list_ex (\<lambda>e. set e = set d) diffdiffOrdered) diffdiff
      in map (join '' '') (diffdiffOrdered @ diffdiffEnd))"

text \<open>
  Lines 190--197: one clause per bundle (\<^verbatim>\<open>list(d)[0]\<close> raises on an empty set), sorted
  by length with \<^verbatim>\<open>numpy.argsort\<close>, which is the parameter \<open>argsort\<close>.
\<close>

definition sortByLength :: "(nat list \<Rightarrow> nat list) \<Rightarrow> string list list \<Rightarrow> pyerror + string list" where
  "sortByLength argsort diff =
     (if list_ex (\<lambda>d. d = []) diff then Inl IndexError
      else
        let tmp = map hd diff;
            xlengths = map length tmp;
            idx = argsort xlengths
        in if list_ex (\<lambda>i. length tmp \<le> i) idx then Inl IndexError
           else Inr (map (\<lambda>i. tmp ! i) idx))"

text \<open>Lines 213--214.\<close>

definition metaCombo :: "string list \<Rightarrow> string list \<Rightarrow> string list \<Rightarrow> string" where
  "metaCombo diffdiff diffcommon common =
     join '', '' diffdiff @ '' '' @ join '' '' diffcommon @ '' '' @ join '' '' common"

definition jointOfMetadata ::
  "(string list \<Rightarrow> string list) \<Rightarrow> (nat list \<Rightarrow> nat list) \<Rightarrow> string list \<Rightarrow> pyerror + string" where
  "jointOfMetadata so argsort metas =
     (let splitmetas = metaSplitmetas so metas
      in case intersect_all so splitmetas of
           Inl e \<Rightarrow> Inl e
         | Inr common \<Rightarrow>
             (let diff = metaDiff so common splitmetas;
                  diffsplit = metaDiffsplit so diff
              in (case intersect_all so diffsplit of
                    Inl e \<Rightarrow> Inl e
                  | Inr diffcommon \<Rightarrow>
                      (let diffdiff = map (\<lambda>x. py_difference so x diffcommon) diffsplit;
                           lengths = map length diffdiff
                       in if py_min lengths = 0
                          then (case sortByLength argsort diff of
                                  Inl e \<Rightarrow> Inl e
                                | Inr sorted_diff \<Rightarrow> Inr (metaCombo sorted_diff [] common))
                          else Inr (metaCombo (orderDiffdiff diffdiff) diffcommon common)))))"

definition combineMetadata ::
  "(string list \<Rightarrow> string list) \<Rightarrow> (nat list \<Rightarrow> nat list) \<Rightarrow> 'v handler
     \<Rightarrow> pyerror option \<times> 'v handler" where
  "combineMetadata so argsort h =
     (let metas = py_set so (map metadata (mBundles h));
          h1 = h\<lparr>self_metadata := metas\<rparr>
      in if length metas = 1 then (None, h1\<lparr>jointMetadata := join '' '' metas\<rparr>)
         else (case jointOfMetadata so argsort metas of
                 Inl e \<Rightarrow> (Some e, h1)
               | Inr combo \<Rightarrow> (None, h1\<lparr>jointMetadata := combo\<rparr>)))"

text \<open>\<^verbatim>\<open>_combineSql\<close> (lines 217--224).\<close>

definition combineSql :: "(string list \<Rightarrow> string list) \<Rightarrow> 'v handler \<Rightarrow> 'v handler" where
  "combineSql so h =
     h\<lparr>sqlconstraints := join ''; '' (py_set so (map sqlconstraint (mBundles h)))\<rparr>"

section \<open>Deriving the plot dictionary\<close>

text \<open>
  \<^verbatim>\<open>_buildTitle\<close> (lines 226--240). The local \<^verbatim>\<open>plotTitle\<close> is bound only when there
  is one run name, so it is an option here; \<open>title_add\<close> is \<^verbatim>\<open>plotTitle += s\<close>, which
  raises on the unbound name.
\<close>

definition title_add :: "string option \<Rightarrow> string \<Rightarrow> pyerror + string option" where
  "title_add plotTitle s =
     (case plotTitle of None \<Rightarrow> Inl UnboundLocalError | Some t \<Rightarrow> Inr (Some (t @ s)))"

definition buildTitle :: "'v handler \<Rightarrow> pyerror + string" where
  "buildTitle h =
     (let t0 = (if length (runNames h) = 1 then Some (hd (runNames h)) else None)
      in case (if length (self_metadata h) = 1
               then title_add t0 ('' '' @ hd (self_metadata h)) else Inr t0) of
           Inl e \<Rightarrow> Inl e
         | Inr t1 \<Rightarrow>
             (case (if length (metricNames h) = 1
                    then title_add t1 ('': '' @ hd (metricNames h)) else Inr t1) of
                Inl e \<Rightarrow> Inl e
              | Inr t2 \<Rightarrow>
                  (case t2 of
                     None \<Rightarrow> Inl UnboundLocalError
                   | Some t \<Rightarrow>
                       Inr (if t = [] then jointMetadata h @ '' '' @ jointMetricNames h else t))))"

text \<open>
  Equality and sets of the hashable plot-dictionary values: \<^verbatim>\<open>True == 1\<close> and
  \<^verbatim>\<open>False == 0\<close>, and a set keeps the element it met first. A list is unhashable.
\<close>

fun num_of :: "pyval \<Rightarrow> int option" where
  "num_of (PBool b) = Some (if b then 1 else 0)"
| "num_of (PInt i) = Some i"
| "num_of v = None"

definition py_eq :: "pyval \<Rightarrow> pyval \<Rightarrow> bool" where
  "py_eq a b =
     (case num_of a of
        Some x \<Rightarrow> (case num_of b of Some y \<Rightarrow> x = y | None \<Rightarrow> False)
      | None \<Rightarrow> (case num_of b of Some y \<Rightarrow> False | None \<Rightarrow> a = b))"

definition val_set :: "pyval list \<Rightarrow> pyval list" where
  "val_set vs = fold (\<lambda>v seen. if list_ex (py_eq v) seen then seen else seen @ [v]) vs []"

fun is_list :: "pyval \<Rightarrow> bool" where
  "is_list (PList vs) = True"
| "is_list v = False"

text \<open>\<^verbatim>\<open>_buildXYlabels\<close> (lines 242--275).\<close>

definition buildXYlabels ::
  "(string list \<Rightarrow> string list) \<Rightarrow> 'v handler \<Rightarrow> ('v, 'f) plotFunc \<Rightarrow> pyerror + pyval \<times> pyval" where
  "buildXYlabels so h pf =
     (if plotType pf = ''BinnedData''
      then (if length (mBundles h) = 1
            then (let mB = hd (mBundles h);
                      xlabel = sliceColName (slicer mB) @ '' ('' @ sliceColUnits (slicer mB) @ '')''
                  in case units (metric mB) of
                       None \<Rightarrow> Inl TypeError
                     | Some u \<Rightarrow> Inr (PStr xlabel, PStr (name (metric mB) @ '' ('' @ u @ '')'')))
            else Inr (PStr (join '', '' (py_set so (map (\<lambda>mB. sliceColName (slicer mB)) (mBundles h)))),
                      PStr (jointMetricNames h)))
      else (if length (mBundles h) = 1
            then (let mB = hd (mBundles h);
                      xlabel = name (metric mB) @
                        (case units (metric mB) of
                           None \<Rightarrow> []
                         | Some u \<Rightarrow> if length u > 0 then '' ('' @ u @ '')'' else [])
                  in Inr (PStr xlabel, PNone))
            else (let given = concat (map (\<lambda>mB. case plotDict mB ''ylabel'' of
                                                    None \<Rightarrow> [] | Some v \<Rightarrow> [v]) (mBundles h));
                      ylabel = val_set given
                  in if list_ex is_list given then Inl TypeError
                     else Inr (PStr (jointMetricNames h),
                               if length ylabel = 1 then hd ylabel else PNone))))"

text \<open>\<^verbatim>\<open>_buildLegendLabels\<close> (lines 277--296).\<close>

definition buildLegendLabels :: "'v handler \<Rightarrow> pyval list" where
  "buildLegendLabels h =
     (if length (mBundles h) = 1 then [PNone]
      else map (\<lambda>mB. case plotDict mB ''label'' of
                       Some v \<Rightarrow> v
                     | None \<Rightarrow>
                         PStr ((if length (runNames h) > 1 then runName mB else [])
                               @ (if length (self_metadata h) > 1 then '' '' @ metadata mB else [])
                               @ (if length (metricNames h) > 1 then '' '' @ name (metric mB) else [])))
               (mBundles h))"

text \<open>
  \<^verbatim>\<open>_buildColors\<close> (lines 298--321). The local \<^verbatim>\<open>color\<close> lives across the iterations
  of the loop over the bundles and is unbound before its first assignment: it is the
  option passed along. \<open>filterColor\<close> is the inner loop of lines 314--317 over the
  pieces of the constraint; \<open>colorLoop\<close> is the loop of lines 308--320.
\<close>

fun filterColor :: "pyval option \<Rightarrow> string list \<Rightarrow> pyerror + pyval option" where
  "filterColor color [] = Inr color"
| "filterColor color (v # vals) =
     (if length v = 1
      then (case filtercolors v of
              None \<Rightarrow> Inl KeyError
            | Some c \<Rightarrow> filterColor (Some (PStr c)) vals)
      else filterColor color vals)"

definition colorOf :: "pyval option \<Rightarrow> 'v metricBundle \<Rightarrow> pyerror + pyval option" where
  "colorOf color mB =
     (case plotDict mB ''color'' of
        Some v \<Rightarrow> Inr (Some v)
      | None \<Rightarrow>
          if str_contains ''filter'' (sqlconstraint mB)
          then filterColor color (py_split [CHR 0x22] (sqlconstraint mB))
          else Inr (Some (PStr ''b'')))"

fun colorLoop :: "pyval option \<Rightarrow> 'v metricBundle list \<Rightarrow> pyerror + pyval list" where
  "colorLoop color [] = Inr []"
| "colorLoop color (mB # rest) =
     (case colorOf color mB of
        Inl e \<Rightarrow> Inl e
      | Inr None \<Rightarrow> Inl UnboundLocalError
      | Inr (Some c) \<Rightarrow>
          (case colorLoop (Some c) rest of Inl e \<Rightarrow> Inl e | Inr cs \<Rightarrow> Inr (c # cs)))"

definition buildColors :: "'v handler \<Rightarrow> pyerror + pyval list" where
  "buildColors h =
     (if length (mBundles h) = 1
      then (case plotDict (hd (mBundles h)) ''color'' of
              Some v \<Rightarrow> Inr [v]
            | None \<Rightarrow> Inr [PStr ''b''])
      else colorLoop None (mBundles h))"

text \<open>\<^verbatim>\<open>_buildCbarFormat\<close> (lines 323--338).\<close>

definition buildCbarFormat :: "'v handler \<Rightarrow> pyval" where
  "buildCbarFormat h =
     (if length (mBundles h) = 1
      then (if metricDtype (metric (hd (mBundles h))) = ''int'' then PStr ''%d'' else PNone)
      else (let metricDtypes = uniq (map (\<lambda>mB. metricDtype (metric mB)) (mBundles h))
            in if length metricDtypes = 1 \<and> hd metricDtypes = ''int'' then PStr ''%d'' else PNone))"

text \<open>
  \<^verbatim>\<open>setPlotDict\<close> (lines 73--98). Without \<^verbatim>\<open>reset\<close> the local \<^verbatim>\<open>tmpPlotDict\<close> is the
  very dictionary \<^verbatim>\<open>self.plotDict\<close>, so what is written before an exception stays
  written (\<open>store\<close>); with \<^verbatim>\<open>reset\<close> it is a new dictionary, installed by line 98 only.
\<close>

definition applyDefaults :: "(string \<times> pyval) list \<Rightarrow> (string \<rightharpoonup> pyval) \<Rightarrow> (string \<rightharpoonup> pyval)" where
  "applyDefaults plotterDefaults d =
     fold (\<lambda>kv tmp. if snd kv \<noteq> PNone then tmp(fst kv \<mapsto> snd kv) else tmp) plotterDefaults d"

definition applyUser :: "(string \<rightharpoonup> pyval) option \<Rightarrow> (string \<rightharpoonup> pyval) \<Rightarrow> (string \<rightharpoonup> pyval)" where
  "applyUser userPlotDict d = (case userPlotDict of None \<Rightarrow> d | Some pd \<Rightarrow> d ++ pd)"

definition setPlotDict ::
  "(string list \<Rightarrow> string list) \<Rightarrow> 'v handler \<Rightarrow> (string \<rightharpoonup> pyval) option
     \<Rightarrow> ('v, 'f) plotFunc option \<Rightarrow> bool \<Rightarrow> pyerror option \<times> 'v handler" where
  "setPlotDict so h userPlotDict plotFunc reset =
     (let tmp0 = (if reset then Map.empty else self_plotDict h);
          store = (\<lambda>d. if reset then h else h\<lparr>self_plotDict := d\<rparr>)
      in case buildTitle h of
           Inl e \<Rightarrow> (Some e, store tmp0)
         | Inr title \<Rightarrow>
             (let tmp1 = tmp0(''title'' \<mapsto> PStr title, ''labels'' \<mapsto> PList (buildLegendLabels h))
              in case buildColors h of
                   Inl e \<Rightarrow> (Some e, store tmp1)
                 | Inr colors \<Rightarrow>
                     (let tmp2 = tmp1(''colors'' \<mapsto> PList colors,
                                      ''legendloc'' \<mapsto> PStr ''upper right'',
                                      ''cbarFormat'' \<mapsto> buildCbarFormat h)
                      in case plotFunc of
                           None \<Rightarrow> (None, h\<lparr>self_plotDict := applyUser userPlotDict tmp2\<rparr>)
                         | Some pf \<Rightarrow>
                             (case buildXYlabels so h pf of
                                Inl e \<Rightarrow> (Some e, store tmp2)
                              | Inr xy \<Rightarrow>
                                  (None, h\<lparr>self_plotDict :=
                                     applyUser userPlotDict
                                       (applyDefaults (defaultPlotDict pf)
                                          (tmp2(''xlabel'' \<mapsto> fst xy, ''ylabel'' \<mapsto> snd xy)))\<rparr>)))))"

section \<open>setMetricBundles\<close>

text \<open>
  Lines 33--71. The bundles are put in filter order, \<^verbatim>\<open>self.mBundles[0]\<close> gives the
  slicer (an \<^verbatim>\<open>IndexError\<close> when there is no bundle), a bundle with another slicer
  name raises \<^verbatim>\<open>ValueError\<close>, and the joint names and the plot dictionary follow.
\<close>

definition setMetricBundles ::
  "(string list \<Rightarrow> string list) \<Rightarrow> (nat list \<Rightarrow> nat list) \<Rightarrow> 'v handler \<Rightarrow> 'v bundles_arg
     \<Rightarrow> pyerror option \<times> 'v handler" where
  "setMetricBundles so argsort h arg =
     (let h1 = h\<lparr>mBundles := [], self_plotDict := Map.empty\<rparr>;
          h2 = h1\<lparr>mBundles := addInFilterOrder (mBundles h1) (bundle_values arg)\<rparr>
      in case mBundles h2 of
           [] \<Rightarrow> (Some IndexError, h2)
         | mB0 # others \<Rightarrow>
             (let h3 = h2\<lparr>self_slicer := slicer mB0\<rparr>
              in if list_ex (\<lambda>mB. slicerName (slicer mB) \<noteq> slicerName (self_slicer h3)) (mBundles h3)
                 then (Some ValueError, h3)
                 else and_then
                        (combineMetadata so argsort (combineRunNames so (combineMetricNames so h3)))
                        (\<lambda>h4. setPlotDict so (combineSql so h4) None
                                 (None :: ('v, unit) plotFunc option) True)))"

section \<open>Output names, the display dictionary and plot\<close>

text \<open>
  \<^verbatim>\<open>_buildFileRoot\<close> (lines 341--355); \<^verbatim>\<open>utils.nameSanitize\<close> is a parameter.
\<close>

definition buildFileRoot ::
  "(string \<Rightarrow> string) \<Rightarrow> 'v handler \<Rightarrow> string option \<Rightarrow> pyerror + string" where
  "buildFileRoot nameSanitize h outfileSuffix =
     (case mBundles h of
        [] \<Rightarrow> Inl IndexError
      | mB0 # others \<Rightarrow>
          (let outfile =
                 (if length (mBundles h) = 1 then fileRoot mB0
                  else join ''_'' [jointRunNames h, jointMetricNames h, jointMetadata h]
                       @ ''_'' @ upper (take 4 (slicerName (slicer mB0))));
               outfile = (case outfileSuffix of
                            None \<Rightarrow> outfile
                          | Some suffix \<Rightarrow> outfile @ ''_'' @ suffix)
           in Inr (nameSanitize outfile)))"

text \<open>
  \<^verbatim>\<open>_buildDisplayDict\<close> (lines 357--385). \<open>orderStep\<close> is the body of the loop for the
  local \<^verbatim>\<open>order\<close> (lines 372--373), which starts at 0.
\<close>

definition orderStep :: "'v metricBundle \<Rightarrow> int \<Rightarrow> int" where
  "orderStep mB ord = (if ord < order (displayDict mB) then order (displayDict mB) + 1 else ord)"

definition buildDisplayDict :: "'v handler \<Rightarrow> pyerror + displayDict" where
  "buildDisplayDict h =
     (if length (mBundles h) = 1 then Inr (displayDict (hd (mBundles h)))
      else (case mBundles h of
              [] \<Rightarrow> Inl IndexError
            | mB0 # others \<Rightarrow>
                (let groups = uniq (map (\<lambda>mB. group (displayDict mB)) (mBundles h));
                     subgroups = uniq (map (\<lambda>mB. subgroup (displayDict mB)) (mBundles h));
                     ord = fold orderStep (mBundles h) 0
                 in Inr \<lparr>group = (if length groups > 1 then ''Comparisons'' else hd groups),
                         subgroup = (if length subgroups > 1 then ''Comparisons'' else hd subgroups),
                         order = ord,
                         caption = jointMetricNames h @ '' metric(s) calculated on a ''
                           @ slicerName (slicer mB0) @ '' grid, for opsim runs ''
                           @ jointRunNames h @ '', for metadata values of ''
                           @ jointMetadata h @ ''.''\<rparr>)))"

text \<open>
  What \<^verbatim>\<open>plot\<close> does to the outside, in order: the calls of the plotter, the legend,
  the files written and the three updates of the results database.
\<close>

datatype 'v event =
    Rendered 'v slicer "string \<rightharpoonup> pyval"
  | Legend pyval
  | SavedFigure string string string nat
  | SavedThumbnail string string
  | UpdateMetric string string string string string
  | UpdateDisplay displayDict
  | UpdatePlot string string

text \<open>
  Lines 391--395. The module never imports \<^verbatim>\<open>warnings\<close> (its imports are \<^verbatim>\<open>os\<close>,
  \<^verbatim>\<open>numpy\<close>, \<^verbatim>\<open>matplotlib.pyplot\<close> and \<^verbatim>\<open>lsst.sims.maf.utils\<close>), so line 394
  raises \<^verbatim>\<open>NameError\<close> when it is reached; a bundle whose plot dictionary has no
  key \<^verbatim>\<open>metricIsColor\<close> raises \<^verbatim>\<open>KeyError\<close> at line 393.
\<close>

fun checkObjectPlotter :: "'v metricBundle list \<Rightarrow> pyerror option" where
  "checkObjectPlotter [] = None"
| "checkObjectPlotter (mB # rest) =
     (case plotDict mB ''metricIsColor'' of
        None \<Rightarrow> Some KeyError
      | Some v \<Rightarrow> if \<not> truthy v then Some NameError else checkObjectPlotter rest)"

text \<open>
  The loop of lines 405--409: bundle number \<open>i\<close> is drawn with \<^verbatim>\<open>label\<close> and
  \<^verbatim>\<open>color\<close> taken from \<^verbatim>\<open>labels[i]\<close> and \<^verbatim>\<open>colors[i]\<close> and written into
  \<^verbatim>\<open>self.plotDict\<close>.
\<close>

fun renderLoop ::
  "('v, 'f) plotFunc \<Rightarrow> nat \<Rightarrow> 'v metricBundle list \<Rightarrow> 'v handler \<times> 'f option \<times> 'v event list
     \<Rightarrow> pyerror option \<times> 'v handler \<times> 'f option \<times> 'v event list" where
  "renderLoop pf i [] st = (None, st)"
| "renderLoop pf i (mB # rest) (h, fignum, evs) =
     (case self_plotDict h ''labels'' of
        None \<Rightarrow> (Some KeyError, h, fignum, evs)
      | Some ls \<Rightarrow>
          (case py_index ls i of
             Inl e \<Rightarrow> (Some e, h, fignum, evs)
           | Inr l \<Rightarrow>
               (let h1 = h\<lparr>self_plotDict := (self_plotDict h)(''label'' \<mapsto> l)\<rparr>
                in case self_plotDict h1 ''colors'' of
                     None \<Rightarrow> (Some KeyError, h1, fignum, evs)
                   | Some cs \<Rightarrow>
                       (case py_index cs i of
                          Inl e \<Rightarrow> (Some e, h1, fignum, evs)
                        | Inr c \<Rightarrow>
                            (let h2 = h1\<lparr>self_plotDict := (self_plotDict h1)(''color'' \<mapsto> c)\<rparr>;
                                 fignum2 = call pf (metricValues mB) (slicer mB) (self_plotDict h2) fignum
                             in renderLoop pf (Suc i) rest
                                  (h2, fignum2,
                                   evs @ [Rendered (metricValues mB) (slicer mB) (self_plotDict h2)]))))))"

text \<open>Lines 415--431, after the figure is drawn.\<close>

definition saveOutputs ::
  "'v handler \<Rightarrow> string \<Rightarrow> string \<Rightarrow> pyerror option \<times> 'v event list" where
  "saveOutputs h outfile ptype =
     (if savefig h
      then (let plotFile = outfile @ ''_'' @ ptype @ ''.'' @ figformat h;
                saved = [SavedFigure (outDir h) plotFile (figformat h) (dpi h)]
                  @ (if thumbnail h
                     then [SavedThumbnail (outDir h) (''thumb.'' @ outfile @ ''_'' @ ptype @ ''.png'')]
                     else []);
                metricUpdate = UpdateMetric (jointMetricNames h) (slicerName (self_slicer h))
                                 (jointRunNames h) (sqlconstraints h) (jointMetadata h)
            in if resultsDb h
               then (case buildDisplayDict h of
                       Inl e \<Rightarrow> (Some e, saved @ [metricUpdate])
                     | Inr dd \<Rightarrow>
                         (None, saved @ [metricUpdate, UpdateDisplay dd, UpdatePlot ptype plotFile]))
               else (None, saved))
      else (None, []))"

text \<open>
  \<^verbatim>\<open>plot\<close> (lines 387--432): the result (an exception, or the figure number returned),
  the handler afterwards and the events.
\<close>

definition plot ::
  "(string list \<Rightarrow> string list) \<Rightarrow> (string \<Rightarrow> string) \<Rightarrow> 'v handler \<Rightarrow> ('v, 'f) plotFunc
     \<Rightarrow> (string \<rightharpoonup> pyval) option \<Rightarrow> string option
     \<Rightarrow> (pyerror + 'f option) \<times> 'v handler \<times> 'v event list" where
  "plot so nameSanitize h pf userPlotDict outfileSuffix =
     (case (if \<not> objectPlotter pf then checkObjectPlotter (mBundles h) else None) of
        Some e \<Rightarrow> (Inl e, h, [])
      | None \<Rightarrow>
          (case setPlotDict so h userPlotDict (Some pf) False of
             (Some e, h1) \<Rightarrow> (Inl e, h1, [])
           | (None, h1) \<Rightarrow>
               (case buildFileRoot nameSanitize h1 outfileSuffix of
                  Inl e \<Rightarrow> (Inl e, h1, [])
                | Inr outfile \<Rightarrow>
                    (case renderLoop pf 0 (mBundles h1) (h1, None, []) of
                       (Some e, h2, fignum, evs) \<Rightarrow> (Inl e, h2, evs)
                     | (None, h2, fignum, evs) \<Rightarrow>
                         (let many = (length (mBundles h2) > 1);
                              ptype = (if many then ''Combo'' @ plotType pf else plotType pf)
                          in case (if many
                                   then (case self_plotDict h2 ''legendloc'' of
                                           None \<Rightarrow> Inl KeyError
                                         | Some loc \<Rightarrow> Inr [Legend loc])
                                   else Inr []) of
                               Inl e \<Rightarrow> (Inl e, h2, evs)
                             | Inr legend \<Rightarrow>
                                 (case saveOutputs h2 outfile ptype of
                                    (Some e, saved) \<Rightarrow> (Inl e, h2, evs @ legend @ saved)
                                  | (None, saved) \<Rightarrow> (Inr fignum, h2, evs @ legend @ saved)))))))"

section \<open>Vocabulary of the properties and example inputs\<close>

text \<open>
  The single-character pieces of a file root that are filter letters, in the order in
  which they stand in the file root.
\<close>

definition bandTokens :: "string \<Rightarrow> string list" where
  "bandTokens root = filter (\<lambda>f. length f = 1 \<and> filterorder f \<noteq> None) (py_split ''_'' root)"

text \<open>
  Example inputs. \<open>newHandler\<close> is \<^verbatim>\<open>PlotHandler()\<close> with the defaults of
  \<^verbatim>\<open>__init__\<close>; the attributes that exist only after \<^verbatim>\<open>setMetricBundles\<close> are empty
  in it.
\<close>

definition demoSlicer :: slicer where
  "demoSlicer = \<lparr>slicerName = ''OneDSlicer'', sliceColName = ''airmass'', sliceColUnits = ''X''\<rparr>"

definition demoBundle :: "string \<Rightarrow> string \<Rightarrow> string \<Rightarrow> string \<Rightarrow> unit metricBundle" where
  "demoBundle root run meta sql =
     \<lparr>fileRoot = root, runName = run, metadata = meta, sqlconstraint = sql,
      slicer = demoSlicer,
      metric = \<lparr>name = ''Count'', units = Some ''#'', metricDtype = ''int''\<rparr>,
      plotDict = Map.empty,
      displayDict = \<lparr>group = ''Basic'', subgroup = ''Counts'', order = 0, caption = []\<rparr>,
      metricValues = ()\<rparr>"

definition newHandler :: "unit handler" where
  "newHandler =
     \<lparr>outDir = ''.'', resultsDb = False, savefig = True, figformat = ''pdf'', dpi = 600,
      thumbnail = True, mBundles = [], self_plotDict = Map.empty, self_slicer = demoSlicer,
      metricNames = [], jointMetricNames = [], runNames = [], jointRunNames = [],
      self_metadata = [], jointMetadata = [], sqlconstraints = []\<rparr>"

definition otherSlicer :: slicer where
  "otherSlicer = \<lparr>slicerName = ''HealpixSlicer'', sliceColName = ''pixel'', sliceColUnits = []\<rparr>"

section \<open>Properties of the filter order\<close>

lemma mset_list_insert: "mset (list_insert i x xs) = add_mset x (mset xs)"
proof -
  have "mset (take i xs) + mset (drop i xs) = mset xs"
    by (metis append_take_drop_id mset_append)
  then show ?thesis by (simp add: list_insert_def)
qed

lemma mset_addInFilterOrder: "mset (addInFilterOrder sofar bs) = mset sofar + mset bs"
  by (induction bs arbitrary: sofar) (simp_all add: mset_list_insert)

lemma mBundles_and_then:
  assumes "mBundles (snd r) = bs" and "\<And>s. mBundles s = bs \<Longrightarrow> mBundles (snd (f s)) = bs"
  shows "mBundles (snd (and_then r f)) = bs"
  using assms by (cases r; cases "fst r") auto

lemma mBundles_setPlotDict: "mBundles (snd (setPlotDict so h u pf reset)) = mBundles h"
  by (simp add: setPlotDict_def Let_def split: sum.splits option.splits)

lemma mBundles_combineMetadata: "mBundles (snd (combineMetadata so argsort h)) = mBundles h"
  by (simp add: combineMetadata_def Let_def split: sum.splits)

text \<open>
  Whatever happens later in \<^verbatim>\<open>setMetricBundles\<close>, \<^verbatim>\<open>self.mBundles\<close> is what the
  insertion loop built.
\<close>

lemma mBundles_setMetricBundles:
  "mBundles (snd (setMetricBundles so argsort h arg)) = addInFilterOrder [] (bundle_values arg)"
  unfolding setMetricBundles_def Let_def
  apply (simp split: list.splits)
  apply (intro allI impI conjI)
  apply (rule mBundles_and_then)
  apply (simp add: mBundles_combineMetadata combineRunNames_def combineMetricNames_def Let_def)
  apply (simp add: mBundles_setPlotDict combineSql_def)
  done

lemma keep_bound:
  "map the (filter (\<lambda>p. p \<noteq> None) (map m (filter P xs))) =
   map (\<lambda>x. the (m x)) (filter (\<lambda>x. P x \<and> m x \<noteq> None) xs)"
  by (induction xs) auto

lemma insertPosition_bandTokens:
  "insertPosition sofar mB =
     (if bandTokens (fileRoot mB) = [] then length sofar
      else the (filterorder (last (bandTokens (fileRoot mB)))))"
proof (cases "bandTokens (fileRoot mB) = []")
  case True
  then show ?thesis
    unfolding insertPosition_def Let_def keep_bound bandTokens_def by simp
next
  case False
  then show ?thesis
    unfolding insertPosition_def Let_def keep_bound bandTokens_def by (simp add: last_map)
qed

text \<open>
  Claim C9. After \<^verbatim>\<open>setMetricBundles\<close>, whether it returns or raises and whatever
  filter letters the file roots hold, \<^verbatim>\<open>self.mBundles\<close> is a permutation of the
  bundles given: each of them is in it as often as it was given, and the lengths agree.
\<close>

theorem bundle_order_permutation:
  "mset (mBundles (snd (setMetricBundles so argsort h arg))) = mset (bundle_values arg)
   \<and> length (mBundles (snd (setMetricBundles so argsort h arg))) = length (bundle_values arg)"
proof -
  have m: "mset (mBundles (snd (setMetricBundles so argsort h arg))) = mset (bundle_values arg)"
    by (simp add: mBundles_setMetricBundles mset_addInFilterOrder)
  from m have "length (mBundles (snd (setMetricBundles so argsort h arg)))
      = length (bundle_values arg)" by (rule mset_eq_length)
  with m show ?thesis by simp
qed

text \<open>
  Claim C1. Three bundles whose file roots hold exactly the filter letter g, u and r,
  given in the order g, u, r, end in the order u, g, r: each is inserted at the index
  its letter has in the filter order (1, 0 and 2). In general every bundle is inserted
  at the index of the last filter letter of its file root, and at the end of the list
  built so far when the file root has none.
\<close>

theorem filter_order_g_u_r:
  assumes g: "bandTokens (fileRoot bg) = [''g'']"
    and u: "bandTokens (fileRoot bu) = [''u'']"
    and r: "bandTokens (fileRoot br) = [''r'']"
  shows "mBundles (snd (setMetricBundles so argsort h (AsList [bg, bu, br]))) = [bu, bg, br]
    \<and> insertPosition [] bg = 1 \<and> insertPosition [bg] bu = 0 \<and> insertPosition [bu, bg] br = 2
    \<and> (\<forall>sofar mB rest.
          addInFilterOrder sofar (mB # rest) =
          addInFilterOrder
            (list_insert (if bandTokens (fileRoot mB) = [] then length sofar
                          else the (filterorder (last (bandTokens (fileRoot mB))))) mB sofar)
            rest)"
proof -
  have pg: "insertPosition sofar bg = 1" for sofar
    by (simp add: insertPosition_bandTokens g filterorder_def)
  have pu: "insertPosition sofar bu = 0" for sofar
    by (simp add: insertPosition_bandTokens u filterorder_def)
  have pr: "insertPosition sofar br = 2" for sofar
    by (simp add: insertPosition_bandTokens r filterorder_def)
  have "addInFilterOrder [] [bg, bu, br] = [bu, bg, br]"
    by (simp add: pg pu pr list_insert_def)
  then show ?thesis
    by (simp add: mBundles_setMetricBundles pg pu pr insertPosition_bandTokens [symmetric])
qed

theorem filter_order_g_u_r_witness:
  "mBundles (snd (setMetricBundles (\<lambda>xs. xs) (\<lambda>ns. [0 ..< length ns]) newHandler
      (AsList [demoBundle ''run1_Count_g_ONED'' ''run1'' ''g'' [],
               demoBundle ''run1_Count_u_ONED'' ''run1'' ''u'' [],
               demoBundle ''run1_Count_r_ONED'' ''run1'' ''r'' []])))
   = [demoBundle ''run1_Count_u_ONED'' ''run1'' ''u'' [],
      demoBundle ''run1_Count_g_ONED'' ''run1'' ''g'' [],
      demoBundle ''run1_Count_r_ONED'' ''run1'' ''r'' []]"
proof -
  have g: "bandTokens (fileRoot (demoBundle ''run1_Count_g_ONED'' ''run1'' ''g'' [])) = [''g'']"
    by (simp add: demoBundle_def bandTokens_def py_split_def filterorder_def)
  have u: "bandTokens (fileRoot (demoBundle ''run1_Count_u_ONED'' ''run1'' ''u'' [])) = [''u'']"
    by (simp add: demoBundle_def bandTokens_def py_split_def filterorder_def)
  have r: "bandTokens (fileRoot (demoBundle ''run1_Count_r_ONED'' ''run1'' ''r'' [])) = [''r'']"
    by (simp add: demoBundle_def bandTokens_def py_split_def filterorder_def)
  from filter_order_g_u_r [OF g u r] show ?thesis by blast
qed

section \<open>The slicer check\<close>

lemma filterColor_not_ValueError: "filterColor c vs \<noteq> Inl ValueError"
  by (induction vs arbitrary: c) (auto split: option.splits)

lemma colorLoop_not_ValueError: "colorLoop c bs \<noteq> Inl ValueError"
  by (induction bs arbitrary: c)
     (auto simp: colorOf_def filterColor_not_ValueError split: sum.splits option.splits if_splits)

lemma buildColors_not_ValueError: "buildColors h \<noteq> Inl ValueError"
  by (auto simp: buildColors_def colorLoop_not_ValueError split: option.splits)

lemma buildTitle_not_ValueError: "buildTitle h \<noteq> Inl ValueError"
  by (auto simp: buildTitle_def title_add_def Let_def split: sum.splits option.splits if_splits)

lemma setPlotDict_not_ValueError: "fst (setPlotDict so h u None reset) \<noteq> Some ValueError"
  using buildColors_not_ValueError [of h] buildTitle_not_ValueError [of h]
  by (auto simp: setPlotDict_def Let_def split: sum.splits option.splits)

lemma jointOfMetadata_not_ValueError: "jointOfMetadata so argsort metas \<noteq> Inl ValueError"
  by (auto simp: jointOfMetadata_def intersect_all_def sortByLength_def Let_def
           split: sum.splits list.splits if_splits)

lemma combineMetadata_not_ValueError: "fst (combineMetadata so argsort h) \<noteq> Some ValueError"
  using jointOfMetadata_not_ValueError
  by (auto simp: combineMetadata_def Let_def split: sum.splits)

lemma and_then_not_ValueError:
  assumes "fst r \<noteq> Some ValueError" and "\<And>s. fst (f s) \<noteq> Some ValueError"
  shows "fst (and_then r f) \<noteq> Some ValueError"
  using assms by (cases r; cases "fst r") auto

lemma set_addInFilterOrder: "set (addInFilterOrder [] bs) = set bs"
  using mset_addInFilterOrder [of "[]" bs] by (metis add.left_neutral mset.simps(1) set_mset_mset)

text \<open>
  Claim C5. For a non-empty set of bundles, \<^verbatim>\<open>setMetricBundles\<close> raises
  \<^verbatim>\<open>ValueError\<close> exactly when two of the bundles have different slicer names; it
  then stops before any joint name is computed: the handler holds the ordered bundles,
  an empty plot dictionary and the slicer of the first bundle, and nothing else has
  changed. When all bundles share one slicer name no \<^verbatim>\<open>ValueError\<close> is raised.
\<close>

theorem slicer_names_checked:
  assumes "bundle_values arg \<noteq> []"
  shows "(fst (setMetricBundles so argsort h arg) = Some ValueError) =
           (\<exists>a \<in> set (bundle_values arg). \<exists>b \<in> set (bundle_values arg).
               slicerName (slicer a) \<noteq> slicerName (slicer b))
    \<and> (fst (setMetricBundles so argsort h arg) = Some ValueError \<longrightarrow>
          snd (setMetricBundles so argsort h arg) =
            h\<lparr>mBundles := addInFilterOrder [] (bundle_values arg),
              self_plotDict := Map.empty,
              self_slicer := slicer (hd (addInFilterOrder [] (bundle_values arg)))\<rparr>)"
proof -
  define bs where "bs = addInFilterOrder [] (bundle_values arg)"
  have sbs: "set bs = set (bundle_values arg)"
    by (simp add: bs_def set_addInFilterOrder)
  with assms obtain mB0 others where c: "bs = mB0 # others"
    by (cases bs) auto
  define mismatch where
    "mismatch = list_ex (\<lambda>mB. slicerName (slicer mB) \<noteq> slicerName (slicer mB0)) bs"
  have m: "mismatch = (\<exists>a \<in> set bs. \<exists>b \<in> set bs. slicerName (slicer a) \<noteq> slicerName (slicer b))"
  proof -
    have "mB0 \<in> set bs" by (simp add: c)
    then show ?thesis unfolding mismatch_def list_ex_iff by metis
  qed
  have later: "fst (and_then (combineMetadata so argsort (combineRunNames so (combineMetricNames so s)))
                  (\<lambda>h4. setPlotDict so (combineSql so h4) None (None :: ('a, unit) plotFunc option) True))
               \<noteq> Some ValueError" for s :: "'a handler"
    by (rule and_then_not_ValueError)
       (simp_all add: combineMetadata_not_ValueError setPlotDict_not_ValueError)
  have bs2: "addInFilterOrder [] (bundle_values arg) = mB0 # others"
    using c by (simp add: bs_def)
  have mm: "list_ex (\<lambda>mB. slicerName (slicer mB) \<noteq> slicerName (slicer mB0)) (mB0 # others) = mismatch"
    by (simp add: mismatch_def c)
  have "(fst (setMetricBundles so argsort h arg) = Some ValueError) = mismatch"
    unfolding setMetricBundles_def Let_def using later
    by (simp add: bs2 mm del: list_ex_Cons_iff)
  moreover have "fst (setMetricBundles so argsort h arg) = Some ValueError \<longrightarrow>
          snd (setMetricBundles so argsort h arg) =
            h\<lparr>mBundles := addInFilterOrder [] (bundle_values arg),
              self_plotDict := Map.empty,
              self_slicer := slicer (hd (addInFilterOrder [] (bundle_values arg)))\<rparr>"
    unfolding setMetricBundles_def Let_def using later
    by (simp add: bs2 mm del: list_ex_Cons_iff)
  ultimately show ?thesis using m sbs by simp
qed


theorem slicer_names_checked_witness:
  "fst (setMetricBundles (\<lambda>xs. xs) (\<lambda>ns. [0 ..< length ns]) newHandler
      (AsList [demoBundle ''a'' ''run1'' ''m'' [],
               (demoBundle ''b'' ''run1'' ''m'' [])\<lparr>slicer := otherSlicer\<rparr>])) = Some ValueError
   \<and> fst (setMetricBundles (\<lambda>xs. xs) (\<lambda>ns. [0 ..< length ns]) newHandler
      (AsList [demoBundle ''a'' ''run1'' ''m'' [], demoBundle ''b'' ''run1'' ''m'' []]))
      \<noteq> Some ValueError"
proof -
  let ?a = "demoBundle ''a'' ''run1'' ''m'' []"
  let ?b = "(demoBundle ''b'' ''run1'' ''m'' [])\<lparr>slicer := otherSlicer\<rparr>"
  let ?c = "demoBundle ''b'' ''run1'' ''m'' []"
  have n: "slicerName (slicer ?a) = ''OneDSlicer''" "slicerName (slicer ?b) = ''HealpixSlicer''"
    "slicerName (slicer ?c) = ''OneDSlicer''"
    by (simp_all add: demoBundle_def demoSlicer_def otherSlicer_def)
  have 1: "\<exists>x \<in> set (bundle_values (AsList [?a, ?b])). \<exists>y \<in> set (bundle_values (AsList [?a, ?b])).
             slicerName (slicer x) \<noteq> slicerName (slicer y)"
    by (rule bexI [of _ ?a], rule bexI [of _ ?b]) (simp_all only: n, simp_all)
  have 2: "\<not> (\<exists>x \<in> set (bundle_values (AsList [?a, ?c])). \<exists>y \<in> set (bundle_values (AsList [?a, ?c])).
             slicerName (slicer x) \<noteq> slicerName (slicer y))"
    using n by auto
  have ne: "bundle_values (AsList [?a, ?b]) \<noteq> []" "bundle_values (AsList [?a, ?c]) \<noteq> []"
    by simp_all
  from slicer_names_checked [OF ne(1)] 1 slicer_names_checked [OF ne(2)] 2
  show ?thesis by blast
qed

end
